theory Spec2Isabelle
  imports Main "HOL-Library.Product_Lexorder" "HOL-Library.Sublist" "HOL-Library.Multiset" "HOL-Library.AList"
begin

section \<open>Strings and the Python runtime\<close>

text \<open>
  A Python \<open>str\<close> is a sequence of Unicode code points. Code points are natural numbers,
  so that the results of a compatibility decomposition (which leave Latin-1) are strings
  of the same type. \<open>py\<close> turns an ASCII literal into such a string.
\<close>

type_synonym codepoint = nat

type_synonym pystr = "codepoint list"

definition py :: "string \<Rightarrow> pystr" where
  "py s = map of_char s"

text \<open>
  The source calls library functions whose tables are not part of the repository:
  \<open>str.strip\<close> (through \<open>str.isspace\<close>), \<open>unicodedata.normalize("NFKD", _)\<close>,
  \<open>unicodedata.combining\<close>, \<open>str.casefold\<close>, \<open>str.lower\<close>, \<open>str.isdigit\<close> and the
  decimal digits, with their values, that the regular expression class \<open>\d\<close> matches and
  \<open>int\<close> reads. They are taken as a parameter, a record of functions,
  and every function of the program takes that record as its first argument.
\<close>

record unicode =
  u_isspace :: "codepoint \<Rightarrow> bool"
  u_digit :: "codepoint \<Rightarrow> nat option"
  u_isdigit :: "codepoint \<Rightarrow> bool"
  u_nfkd :: "pystr \<Rightarrow> pystr"
  u_combining :: "codepoint \<Rightarrow> nat"
  u_casefold :: "pystr \<Rightarrow> pystr"
  u_lower :: "pystr \<Rightarrow> pystr"

text \<open>\<open>s.strip()\<close>: leading and trailing whitespace removed.\<close>

definition strip :: "unicode \<Rightarrow> pystr \<Rightarrow> pystr" where
  "strip U s = rev (dropWhile (u_isspace U) (rev (dropWhile (u_isspace U) s)))"

text \<open>
  An excerpt of the Unicode tables of CPython 3.11, exact on the code points below 128,
  on U+00A8 DIAERESIS (compatibility decomposition \<open>0020 0308\<close>), on U+00E9 LATIN SMALL
  LETTER E WITH ACUTE (decomposition \<open>0065 0301\<close>) and on the combining marks U+0301 and
  U+0308 (combining class 230). It stands for the tables only in evaluations on strings
  of these code points; no general property is stated for it.
\<close>

definition excerpt_isspace :: "codepoint \<Rightarrow> bool" where
  "excerpt_isspace c = (c \<in> {9, 10, 11, 12, 13, 28, 29, 30, 31, 32, 133, 160})"

definition excerpt_digit :: "codepoint \<Rightarrow> nat option" where
  "excerpt_digit c = (if 48 \<le> c \<and> c \<le> 57 then Some (c - 48) else None)"

definition excerpt_decomposition :: "codepoint \<Rightarrow> pystr" where
  "excerpt_decomposition c =
     (if c = 168 then [32, 776] else if c = 233 then [101, 769] else [c])"

definition excerpt_combining :: "codepoint \<Rightarrow> nat" where
  "excerpt_combining c = (if c = 776 \<or> c = 769 then 230 else 0)"

definition ascii_lower :: "codepoint \<Rightarrow> codepoint" where
  "ascii_lower c = (if 65 \<le> c \<and> c \<le> 90 then c + 32 else c)"

definition unicode_excerpt :: unicode where
  "unicode_excerpt =
     \<lparr> u_isspace = excerpt_isspace,
       u_digit = excerpt_digit,
       u_isdigit = (\<lambda>c. excerpt_digit c \<noteq> None),
       u_nfkd = (\<lambda>s. concat (map excerpt_decomposition s)),
       u_combining = excerpt_combining,
       u_casefold = map ascii_lower,
       u_lower = map ascii_lower \<rparr>"

text \<open>
  What the excerpt makes of one character: its decomposition without the combining
  marks, in lowercase.
\<close>

definition excerpt_char :: "codepoint \<Rightarrow> pystr" where
  "excerpt_char c =
     map ascii_lower (filter (\<lambda>ch. excerpt_combining ch = 0) (excerpt_decomposition c))"

section \<open>Title normalizer\<close>

text \<open>
  \<open>_normalize\<close> of \<open>search_plex_for_media_by_title\<close>. The argument is \<open>None\<close> or a string.
  \<^verbatim>\<open>
    if s is None: return ""
    s = str(s).strip()
    s = unicodedata.normalize("NFKD", s)
    s = "".join(ch for ch in s if not unicodedata.combining(ch))
    return s.casefold()
  \<close>
\<close>

definition normalize_title :: "unicode \<Rightarrow> pystr option \<Rightarrow> pystr" where
  "normalize_title U s =
     (case s of
        None \<Rightarrow> []
      | Some t \<Rightarrow>
          u_casefold U (filter (\<lambda>ch. u_combining U ch = 0) (u_nfkd U (strip U t))))"

text \<open>
  The three table steps of \<open>_normalize\<close> after the strip: decomposition, removal of
  the combining marks, case folding.
\<close>

definition decompose_fold :: "unicode \<Rightarrow> pystr \<Rightarrow> pystr" where
  "decompose_fold U t = u_casefold U (filter (\<lambda>ch. u_combining U ch = 0) (u_nfkd U t))"

text \<open>
  Two properties of the tables, which those of CPython have: the three steps map the
  empty string to the empty string, and applying them twice is applying them once (a
  decomposed, mark-free, case-folded string has no character that decomposes, is a mark
  or folds further).
\<close>

definition stable_tables :: "unicode \<Rightarrow> bool" where
  "stable_tables U =
     (decompose_fold U [] = [] \<and>
      (\<forall>t. decompose_fold U (decompose_fold U t) = decompose_fold U t))"

section \<open>Catalog objects\<close>

text \<open>
  The scorer reads a fixed set of attributes of a catalog object with
  \<open>getattr(obj, name, None)\<close>; the record holds them with the types the catalog
  library gives them. \<open>None\<close> is an attribute that is absent or \<open>None\<close>, which
  \<open>getattr\<close> with the default \<open>None\<close> does not tell apart. The source asks
  \<open>hasattr(parent_obj, 'ratingKey')\<close>, so for the rating key \<open>None\<close> is the absent
  attribute and \<open>Some None\<close> the attribute of value \<open>None\<close>. \<open>p_str\<close> is \<open>str(obj)\<close>.
\<close>

record plex_obj =
  p_type :: "pystr option"
  p_title :: "pystr option"
  p_name :: "pystr option"
  p_year :: "int option"
  p_ratingKey :: "int option option"
  p_parentRatingKey :: "int option"
  p_grandparentRatingKey :: "int option"
  p_key :: "pystr option"
  p_parentTitle :: "pystr option"
  p_grandparentTitle :: "pystr option"
  p_str :: pystr

text \<open>
  The catalog service. \<open>plex_search\<close> is \<open>plex.search(title)\<close>, \<open>None\<close> when it raises.
  \<open>plex_seasons\<close> and \<open>plex_episodes\<close> are the methods \<open>obj.seasons()\<close> and
  \<open>obj.episodes()\<close>: \<open>None\<close> when the object has no such attribute (\<open>hasattr\<close> is false),
  \<open>Some None\<close> when the call raises. \<open>plex_children\<close> is
  \<open>getattr(obj, 'children', []) or []\<close>.
\<close>

record plex_server =
  plex_search :: "pystr \<Rightarrow> plex_obj list option"
  plex_seasons :: "plex_obj \<Rightarrow> plex_obj list option option"
  plex_episodes :: "plex_obj \<Rightarrow> plex_obj list option option"
  plex_children :: "plex_obj \<Rightarrow> plex_obj list"

section \<open>Candidate scorer\<close>

text \<open>Truth value of an optional string and of an optional integer, as Python has it.\<close>

definition truthy_str :: "pystr option \<Rightarrow> bool" where
  "truthy_str s = (case s of None \<Rightarrow> False | Some t \<Rightarrow> t \<noteq> [])"

definition truthy_int :: "int option \<Rightarrow> bool" where
  "truthy_int i = (case i of None \<Rightarrow> False | Some n \<Rightarrow> n \<noteq> 0)"

text \<open>\<open>str(n)\<close> of an integer: its decimal digits, with a minus sign when negative.\<close>

fun str_nat :: "nat \<Rightarrow> pystr" where
  "str_nat n = (if n < 10 then [48 + n] else str_nat (n div 10) @ [48 + n mod 10])"

declare str_nat.simps [simp del]

definition str_int :: "int \<Rightarrow> pystr" where
  "str_int i = (if i < 0 then 45 # str_nat (nat (- i)) else str_nat (nat i))"

text \<open>
  The trailing year. The source searches
  \<^verbatim>\<open>\s*[\-\(\[\{]\s*\d{4}[\)\]\}]?$\<close>
  in the stripped title. A match ends at the end of the string (the stripped title does
  not end in a newline), so it is read from the right: an optional closing bracket, four
  digits, whitespace, one opening character, whitespace. The leftmost match, which
  \<open>re.search\<close> returns, takes all the whitespace before the opening character. The year
  is \<open>int\<close> of the digits; the match is removed and the rest stripped.
\<close>

definition openers :: "codepoint set" where
  "openers = {45, 40, 91, 123}"

definition closers :: "codepoint set" where
  "closers = {41, 93, 125}"

fun int_of_digits :: "unicode \<Rightarrow> pystr \<Rightarrow> int \<Rightarrow> int" where
  "int_of_digits U [] acc = acc"
| "int_of_digits U (d # ds) acc =
     int_of_digits U ds (10 * acc + int (case u_digit U d of None \<Rightarrow> 0 | Some v \<Rightarrow> v))"

definition extract_trailing_year :: "unicode \<Rightarrow> pystr \<Rightarrow> pystr \<times> int option" where
  "extract_trailing_year U s =
     (let r = rev s;
          r1 = (case r of [] \<Rightarrow> [] | c # t \<Rightarrow> if c \<in> closers then t else r);
          ds = take 4 r1;
          r2 = dropWhile (u_isspace U) (drop 4 r1)
      in if length ds = 4 \<and> list_all (\<lambda>d. u_digit U d \<noteq> None) ds then
           (case r2 of
              [] \<Rightarrow> (s, None)
            | c # t \<Rightarrow>
                if c \<in> openers
                then (strip U (rev (dropWhile (u_isspace U) t)), Some (int_of_digits U (rev ds) 0))
                else (s, None))
         else (s, None))"

text \<open>
  \<open>str\<close> of a rating key, an integer or \<open>None\<close>.
\<close>

definition str_key :: "int option \<Rightarrow> pystr" where
  "str_key k = (case k of None \<Rightarrow> py ''None'' | Some i \<Rightarrow> str_int i)"

text \<open>
  \<open>_is_child_of_parent\<close>. With a parent that has a rating key attribute, the \<open>str\<close>
  forms of the keys are compared, \<open>str(parent_rk) in str(cand_key)\<close> is a substring
  test, and the parent titles are compared last; otherwise the titles are compared with
  \<open>str(parent_obj)\<close>. No statement of the body raises here, so its \<open>except\<close> arm is not
  taken.
\<close>

definition is_child_of_parent :: "unicode \<Rightarrow> plex_obj \<Rightarrow> plex_obj \<Rightarrow> bool" where
  "is_child_of_parent U candidate parent_obj =
     (case p_ratingKey parent_obj of
        Some parent_rk \<Rightarrow>
          if truthy_int (p_parentRatingKey candidate)
             \<and> str_key (p_parentRatingKey candidate) = str_key parent_rk then True
          else if truthy_int (p_grandparentRatingKey candidate)
             \<and> str_key (p_grandparentRatingKey candidate) = str_key parent_rk then True
          else if truthy_str (p_key candidate)
             \<and> sublist (str_key parent_rk) (case p_key candidate of None \<Rightarrow> [] | Some k \<Rightarrow> k)
            then True
          else if truthy_str (p_parentTitle candidate)
             \<and> normalize_title U (p_parentTitle candidate) = normalize_title U (p_title parent_obj)
            then True
          else False
      | None \<Rightarrow>
          if truthy_str (p_parentTitle candidate)
             \<and> normalize_title U (p_parentTitle candidate) = normalize_title U (Some (p_str parent_obj))
            then True
          else if truthy_str (p_grandparentTitle candidate)
             \<and> normalize_title U (p_grandparentTitle candidate)
                 = normalize_title U (Some (p_str parent_obj))
            then True
          else False)"

text \<open>One entry of the list \<open>scored\<close>: \<open>(score, idx, cand, norm_cand_title, cand_year_int)\<close>.\<close>

record scored =
  sc_score :: int
  sc_idx :: nat
  sc_cand :: plex_obj
  sc_norm_title :: pystr
  sc_year :: "int option"

text \<open>\<open>getattr(cand, 'title', None) or getattr(cand, 'name', None) or ""\<close>\<close>

definition cand_title_of :: "plex_obj \<Rightarrow> pystr" where
  "cand_title_of cand =
     (if truthy_str (p_title cand) then (case p_title cand of Some t \<Rightarrow> t | None \<Rightarrow> [])
      else if truthy_str (p_name cand) then (case p_name cand of Some t \<Rightarrow> t | None \<Rightarrow> [])
      else [])"

text \<open>\<open>int(cand_year) if cand_year else None\<close>\<close>

definition cand_year_int_of :: "plex_obj \<Rightarrow> int option" where
  "cand_year_int_of cand = (if truthy_int (p_year cand) then p_year cand else None)"

definition noise_keywords :: "pystr list" where
  "noise_keywords =
     [py ''sample'', py ''trailer'', py ''teaser'', py ''promo'', py ''deleted scene'',
      py ''behind the scenes'']"

text \<open>
  The score of the title alone, the value of \<open>score\<close> after the exact-match and
  substring tests of the loop body:
  \<^verbatim>\<open>
    score = 0
    if norm_cand_title == norm_search:
        score = 99
        if year and cand_year_int == year: score = 100
    elif norm_search in norm_cand_title:
        score = 20
        if cand_title.lower().startswith(media_title_raw.lower()): score += 5
  \<close>
\<close>

definition title_score :: "unicode \<Rightarrow> pystr \<Rightarrow> int option \<Rightarrow> plex_obj \<Rightarrow> int" where
  "title_score U media_title_raw year cand =
     (let norm_search = normalize_title U (Some media_title_raw);
          cand_title = cand_title_of cand;
          norm_cand_title = normalize_title U (Some cand_title);
          cand_year_int = cand_year_int_of cand
      in if norm_cand_title = norm_search then
           (if truthy_int year \<and> cand_year_int = year then 100 else 99)
         else if sublist norm_search norm_cand_title then
           (if prefix (u_lower U media_title_raw) (u_lower U cand_title) then 20 + 5 else 20)
         else 0)"

text \<open>
  The rest of the loop body: the noise keywords, the parent bonus and the clamp.
  \<^verbatim>\<open>
    if any(k in lower_cand_title for k in noise_keywords): score = max(score - 50, 1)
    if parent and _is_child_of_parent(cand, parent): score += 30
    score = max(0, score)
  \<close>
\<close>

definition score_candidate ::
  "unicode \<Rightarrow> pystr \<Rightarrow> int option \<Rightarrow> plex_obj option \<Rightarrow> plex_obj \<Rightarrow> int" where
  "score_candidate U media_title_raw year parent cand =
     (let score = title_score U media_title_raw year cand;
          lower_cand_title = u_lower U (cand_title_of cand);
          score = (if list_ex (\<lambda>k. sublist k lower_cand_title) noise_keywords
                   then max (score - 50) 1 else score);
          score = (case parent of
                     Some p \<Rightarrow> if is_child_of_parent U cand p then score + 30 else score
                   | None \<Rightarrow> score)
      in max 0 score)"

text \<open>
  The filter at the head of the loop body:
  \<open>if media_type and cand_type and media_type != cand_type: continue\<close>
\<close>

definition excluded :: "pystr option \<Rightarrow> plex_obj \<Rightarrow> bool" where
  "excluded media_type cand =
     (truthy_str media_type \<and> truthy_str (p_type cand) \<and> media_type \<noteq> p_type cand)"

text \<open>
  The loop \<open>for idx, cand in enumerate(candidates_to_score)\<close>. With the attribute
  types of \<open>plex_obj\<close> no statement of the body raises, so the \<open>except\<close> arm, which
  appends the candidate with score 0, is not taken.
\<close>

fun score_loop ::
  "unicode \<Rightarrow> pystr option \<Rightarrow> pystr \<Rightarrow> int option \<Rightarrow> plex_obj option \<Rightarrow> nat \<Rightarrow>
   plex_obj list \<Rightarrow> scored list" where
  "score_loop U media_type media_title_raw year parent idx [] = []"
| "score_loop U media_type media_title_raw year parent idx (cand # rest) =
     (if excluded media_type cand
      then score_loop U media_type media_title_raw year parent (Suc idx) rest
      else \<lparr> sc_score = score_candidate U media_title_raw year parent cand,
             sc_idx = idx,
             sc_cand = cand,
             sc_norm_title = normalize_title U (Some (cand_title_of cand)),
             sc_year = cand_year_int_of cand \<rparr>
           # score_loop U media_type media_title_raw year parent (Suc idx) rest)"

text \<open>The dictionary that \<open>search_plex_for_media_by_title\<close> returns.\<close>

record score_result =
  candidates :: "plex_obj list"
  best_match :: "plex_obj option"
  best_score :: int
  is_confident :: bool
  nb_excellent_match :: nat

definition no_result :: score_result where
  "no_result =
     \<lparr> candidates = [], best_match = None, best_score = 0, is_confident = False,
       nb_excellent_match = 0 \<rparr>"

text \<open>
  \<open>scored.sort(key=lambda x: (-x[0], x[1]))\<close>: the keys are pairs, compared
  lexicographically.
\<close>

definition sort_scored :: "scored list \<Rightarrow> scored list" where
  "sort_scored xs = sort_key (\<lambda>x. (- sc_score x, sc_idx x)) xs"

definition select_matches :: "scored list \<Rightarrow> score_result" where
  "select_matches scored_list =
     (case sort_scored scored_list of
        [] \<Rightarrow> no_result
      | best # rest \<Rightarrow>
          \<lparr> candidates = map sc_cand (best # rest),
            best_match = Some (sc_cand best),
            best_score = sc_score best,
            is_confident = (sc_score best \<ge> 99),
            nb_excellent_match = length (filter (\<lambda>x. sc_score x \<ge> 99) (best # rest)) \<rparr>)"

text \<open>
  The parent's own match with the search: \<open>_normalize(parent_title) == norm_search and
  (year is None or str(parent_year) == str(year))\<close>.
\<close>

definition parent_self_match :: "unicode \<Rightarrow> pystr \<Rightarrow> int option \<Rightarrow> plex_obj \<Rightarrow> bool" where
  "parent_self_match U media_title_raw year parent =
     (normalize_title U (p_title parent) = normalize_title U (Some media_title_raw)
      \<and> (year = None \<or> p_year parent = year))"

text \<open>
  Collecting the scoped candidates under a parent. An exception of \<open>parent.seasons()\<close>
  or \<open>parent.episodes()\<close> empties the list; an exception inside one season of the inner
  loop skips that season.
\<close>

definition season_episodes :: "plex_server \<Rightarrow> plex_obj \<Rightarrow> plex_obj list" where
  "season_episodes srv s =
     (case plex_episodes srv s of
        Some (Some eps) \<Rightarrow> eps
      | Some None \<Rightarrow> []
      | None \<Rightarrow> plex_children srv s)"

definition scoped_candidates :: "plex_server \<Rightarrow> pystr option \<Rightarrow> plex_obj \<Rightarrow> plex_obj list" where
  "scoped_candidates srv media_type parent =
     (if media_type = Some (py ''season'') \<and> plex_seasons srv parent \<noteq> None then
        (case plex_seasons srv parent of Some (Some ss) \<Rightarrow> ss | _ \<Rightarrow> [])
      else if media_type = Some (py ''episode'') then
        (case plex_episodes srv parent of
           Some (Some eps) \<Rightarrow> eps
         | Some None \<Rightarrow> []
         | None \<Rightarrow>
             (case plex_seasons srv parent of
                Some (Some ss) \<Rightarrow> concat (map (season_episodes srv) ss)
              | _ \<Rightarrow> []))
      else [])"

text \<open>
  The list \<open>candidates_to_score\<close>: the scoped candidates when there are some, otherwise
  the result of \<open>plex.search(media_title_raw)\<close>, \<open>None\<close> when the search raises.
\<close>

definition candidates_to_score ::
  "plex_server \<Rightarrow> pystr option \<Rightarrow> plex_obj option \<Rightarrow> pystr \<Rightarrow> plex_obj list option" where
  "candidates_to_score srv media_type parent_plex_item media_title_raw =
     (let scoped = (case parent_plex_item of
                      Some p \<Rightarrow> scoped_candidates srv media_type p
                    | None \<Rightarrow> [])
      in if scoped \<noteq> [] then Some scoped else plex_search srv media_title_raw)"

definition search_plex_for_media_by_title ::
  "unicode \<Rightarrow> plex_server \<Rightarrow> pystr \<Rightarrow> pystr option \<Rightarrow> plex_obj option \<Rightarrow> score_result" where
  "search_plex_for_media_by_title U srv media_title media_type parent_plex_item =
     (let stripped = strip U media_title in
      if stripped = [] then no_result
      else
        let (media_title_raw, year) = extract_trailing_year U stripped;
            self = (case parent_plex_item of
                      Some p \<Rightarrow> parent_self_match U media_title_raw year p
                    | None \<Rightarrow> False)
        in if self then
             \<lparr> candidates = (case parent_plex_item of Some p \<Rightarrow> [p] | None \<Rightarrow> []),
               best_match = parent_plex_item, best_score = 100, is_confident = True,
               nb_excellent_match = 1 \<rparr>
           else
             (case candidates_to_score srv media_type parent_plex_item media_title_raw of
                None \<Rightarrow> no_result
              | Some hits \<Rightarrow>
                  select_matches
                    (score_loop U media_type media_title_raw year parent_plex_item 0 hits)))"

section \<open>Resolution policy\<close>

text \<open>The exceptions that leave the functions modelled here.\<close>

datatype error = TypeError | ValueError | EOFError | SystemExit

text \<open>
  \<open>prompt_choice\<close> reads lines from the terminal until one is a valid number or \<open>q\<close>.
  The lines the user will type are a list; \<open>input()\<close> at its end raises \<open>EOFError\<close>.
  The first argument is \<open>len(choices)\<close>.
  \<^verbatim>\<open>
    s = input(...).strip()
    if s.lower() == "q": sys.exit(0)
    if s.isdigit():
        idx = int(s) - 1
        if 0 <= idx < len(choices): return idx
  \<close>
  \<open>int(s)\<close> raises \<open>ValueError\<close> on a digit that is not a decimal digit and, in
  CPython 3.11, on more than \<open>sys.int_max_str_digits\<close> digits (4300 by default).
\<close>

definition int_max_str_digits :: nat where
  "int_max_str_digits = 4300"

fun prompt_choice :: "unicode \<Rightarrow> nat \<Rightarrow> pystr list \<Rightarrow> error + nat" where
  "prompt_choice U n [] = Inl EOFError"
| "prompt_choice U n (line # rest) =
     (let s = strip U line in
      if u_lower U s = py ''q'' then Inl SystemExit
      else if s \<noteq> [] \<and> list_all (u_isdigit U) s then
        (if list_all (\<lambda>d. u_digit U d \<noteq> None) s \<and> length s \<le> int_max_str_digits then
           (let v = int_of_digits U s 0 in
            if 0 \<le> v - 1 \<and> v - 1 < int n then Inr (nat (v - 1))
            else prompt_choice U n rest)
         else Inl ValueError)
      else prompt_choice U n rest)"

text \<open>
  \<open>choose_plex_item\<close>: no candidate gives \<open>None\<close>, a single candidate is returned
  without a prompt, otherwise the user chooses among the candidates and a last entry
  "Skip".
\<close>

definition choose_plex_item ::
  "unicode \<Rightarrow> pystr list \<Rightarrow> plex_obj list \<Rightarrow> error + plex_obj option" where
  "choose_plex_item U inputs cands =
     (case cands of
        [] \<Rightarrow> Inr None
      | [c] \<Rightarrow> Inr (Some c)
      | _ \<Rightarrow>
          (case prompt_choice U (length cands + 1) inputs of
             Inl e \<Rightarrow> Inl e
           | Inr idx \<Rightarrow> if idx = length cands then Inr None else Inr (Some (cands ! idx))))"

text \<open>The entries that \<open>resolve_plex_item\<close> appends to \<open>STATS["skipped"]\<close>.\<close>

datatype skipped_resolution =
    NoCandidateFound pystr
  | UserDidNotSelect pystr
  | NoConfidentMatchNotSelected pystr

text \<open>
  \<open>len(results["nb_excellent_match"])\<close>: the value is an integer, and \<open>len\<close> of an
  integer raises \<open>TypeError\<close>.
\<close>

definition len_of_int :: "nat \<Rightarrow> error + nat" where
  "len_of_int n = Inl TypeError"

text \<open>
  \<open>resolve_plex_item\<close> returns the entries it appended to \<open>STATS["skipped"]\<close> and
  either the exception that left it or the selected object (\<open>None\<close> for no selection).
\<close>

definition resolve_plex_item ::
  "unicode \<Rightarrow> plex_server \<Rightarrow> pystr list \<Rightarrow> pystr \<Rightarrow> pystr option \<Rightarrow> bool \<Rightarrow>
   plex_obj option \<Rightarrow> skipped_resolution list \<times> (error + plex_obj option)" where
  "resolve_plex_item U srv inputs media_title media_type automatic_mode parent_plex_item =
     (let results = search_plex_for_media_by_title U srv media_title media_type parent_plex_item
      in if candidates results = [] then ([NoCandidateFound media_title], Inr None)
         else if automatic_mode then
           (if is_confident results \<and> nb_excellent_match results = 1
            then ([], Inr (best_match results))
            else if nb_excellent_match results > 1 then ([], Inr None)
            else ([], Inr None))
         else
           (if is_confident results \<and> nb_excellent_match results = 1
            then ([], Inr (best_match results))
            else if nb_excellent_match results > 1 then
              (case choose_plex_item U inputs
                      (take (nb_excellent_match results) (candidates results)) of
                 Inl e \<Rightarrow> ([], Inl e)
               | Inr None \<Rightarrow> ([UserDidNotSelect media_title], Inr None)
               | Inr (Some c) \<Rightarrow> ([], Inr (Some c)))
            else
              (case len_of_int (nb_excellent_match results) of
                 Inl e \<Rightarrow> ([], Inl e)
               | Inr n \<Rightarrow>
                   if n = 1 then ([], Inr (Some (hd (candidates results))))
                   else
                     (case choose_plex_item U inputs (candidates results) of
                        Inl e \<Rightarrow> ([], Inl e)
                      | Inr None \<Rightarrow> ([NoConfidentMatchNotSelected media_title], Inr None)
                      | Inr (Some c) \<Rightarrow> ([], Inr (Some c))))))"

section \<open>Sidecar records and catalog entities\<close>

text \<open>
  A value of the dictionary that \<open>parse_nfo_to_dict\<close> builds: \<open>None\<close>, a string, a
  dictionary or a list. The dictionary \<open>nfo_data\<close> itself is a list of pairs in insertion
  order.
\<close>

datatype nfo_value =
    VNone
  | VStr pystr
  | VDict "(pystr \<times> nfo_value) list"
  | VList "nfo_value list"

text \<open>
  The attributes of the catalog entity that \<open>update_plex_item_fields\<close> reads by name with
  \<open>getattr\<close>. A tag of a collection is a plain string or an object with the attributes
  \<open>tag\<close> and \<open>name\<close>. An attribute value is \<open>None\<close>, a string, an integer, a list of
  tags, or another object that cannot be iterated (a float, a date), given by its \<open>str\<close>
  and its truth value. An attribute name absent from the list is an absent attribute.
  \<open>isLocked\<close> is the method of that name, \<open>None\<close> when it raises.
\<close>

datatype plex_tag = TagStr pystr | TagObj "pystr option" "pystr option"

datatype attr_value =
    ANone
  | AStr pystr
  | AInt int
  | ATags "plex_tag list"
  | AObj pystr bool

record plex_item =
  attrs :: "(pystr \<times> attr_value) list"
  isLocked :: "pystr \<Rightarrow> bool option"

text \<open>
  \<open>str\<close> of a dictionary, of a list and of a list of tag objects is Python's \<open>repr\<close>,
  taken as a parameter.
\<close>

record py_repr =
  repr_nfo :: "nfo_value \<Rightarrow> pystr"
  repr_tags :: "plex_tag list \<Rightarrow> pystr"

text \<open>The run configuration that \<open>update_plex_item_fields\<close> reads from globals.\<close>

record settings =
  ALLOW_UNLOCK :: bool
  DRY_RUN :: bool
  ALWAYS_UPDATE_ART :: bool
  CUSTOM_DELAY :: int

definition SUPPORTED_FIELD_MAP :: "(pystr \<times> pystr \<times> bool) list" where
  "SUPPORTED_FIELD_MAP =
     [(py ''title'', py ''title'', False),
      (py ''originaltitle'', py ''originalTitle'', False),
      (py ''plot'', py ''summary'', False),
      (py ''summary'', py ''summary'', False),
      (py ''overview'', py ''summary'', False),
      (py ''studio'', py ''studio'', False),
      (py ''premiered'', py ''originallyAvailableAt'', False),
      (py ''year'', py ''year'', False),
      (py ''mpaa'', py ''contentRating'', False),
      (py ''contentrating'', py ''contentRating'', False),
      (py ''rating'', py ''rating'', False),
      (py ''genres'', py ''genres'', True),
      (py ''genre'', py ''genres'', True),
      (py ''country'', py ''countries'', True),
      (py ''countries'', py ''countries'', True),
      (py ''directors'', py ''directors'', True),
      (py ''director'', py ''directors'', True),
      (py ''writers'', py ''writers'', True),
      (py ''writer'', py ''writers'', True),
      (py ''actors'', py ''actors'', True),
      (py ''actor'', py ''actors'', True)]"

section \<open>Diff and update planner\<close>

definition truthy_nfo :: "nfo_value \<Rightarrow> bool" where
  "truthy_nfo v =
     (case v of VNone \<Rightarrow> False | VStr s \<Rightarrow> s \<noteq> [] | VDict d \<Rightarrow> d \<noteq> [] | VList l \<Rightarrow> l \<noteq> [])"

definition str_nfo :: "py_repr \<Rightarrow> nfo_value \<Rightarrow> pystr" where
  "str_nfo R v = (case v of VStr s \<Rightarrow> s | _ \<Rightarrow> repr_nfo R v)"

text \<open>\<open>d.get(key)\<close> of a dictionary value.\<close>

definition dict_get :: "(pystr \<times> nfo_value) list \<Rightarrow> pystr \<Rightarrow> nfo_value" where
  "dict_get d key = (case map_of d key of None \<Rightarrow> VNone | Some v \<Rightarrow> v)"

text \<open>\<open>item.get("tag") or item.get("name")\<close>\<close>

definition tag_or_name :: "(pystr \<times> nfo_value) list \<Rightarrow> nfo_value" where
  "tag_or_name d =
     (if truthy_nfo (dict_get d (py ''tag'')) then dict_get d (py ''tag'')
      else dict_get d (py ''name''))"

text \<open>
  \<open>add_tag(name)\<close> appends the stripped \<open>str(name)\<close> to \<open>tag_names\<close> unless the name or
  the stripped string is empty.
\<close>

definition add_tag :: "unicode \<Rightarrow> py_repr \<Rightarrow> pystr list \<Rightarrow> nfo_value \<Rightarrow> pystr list" where
  "add_tag U R tag_names name =
     (if \<not> truthy_nfo name then tag_names
      else let clean = strip U (str_nfo R name)
           in if clean \<noteq> [] then tag_names @ [clean] else tag_names)"

text \<open>
  The separators \<open>, / | ;\<close> and \<open>re.split(r'[,/|;]+', s)\<close>: the pieces between the runs
  of separators, with an empty piece before a leading run and after a trailing one. The
  flag says that the last character read was a separator.
\<close>

definition separators :: "codepoint set" where
  "separators = {44, 47, 124, 59}"

fun split_run :: "bool \<Rightarrow> pystr \<Rightarrow> pystr \<Rightarrow> pystr list" where
  "split_run in_sep cur [] = [cur]"
| "split_run in_sep cur (c # cs) =
     (if c \<in> separators then
        (if in_sep then split_run True cur cs else cur # split_run True [] cs)
      else split_run False (cur @ [c]) cs)"

definition re_split :: "pystr \<Rightarrow> pystr list" where
  "re_split s = split_run False [] s"

definition add_parts :: "unicode \<Rightarrow> py_repr \<Rightarrow> pystr list \<Rightarrow> pystr \<Rightarrow> pystr list" where
  "add_parts U R tag_names s = foldl (\<lambda>acc part. add_tag U R acc (VStr part)) tag_names (re_split s)"

text \<open>
  The raw tag names of a value: a string is split; a dictionary gives its \<open>tag\<close> or
  \<open>name\<close>; of a list, every string is split and every dictionary gives its name.
\<close>

definition add_item :: "unicode \<Rightarrow> py_repr \<Rightarrow> pystr list \<Rightarrow> nfo_value \<Rightarrow> pystr list" where
  "add_item U R tag_names item =
     (case item of
        VStr s \<Rightarrow> add_parts U R tag_names s
      | VDict d \<Rightarrow> add_tag U R tag_names (tag_or_name d)
      | _ \<Rightarrow> tag_names)"

definition gather_tag_names :: "unicode \<Rightarrow> py_repr \<Rightarrow> nfo_value \<Rightarrow> pystr list" where
  "gather_tag_names U R nfo_value =
     (case nfo_value of
        VStr s \<Rightarrow> add_parts U R [] s
      | VDict d \<Rightarrow> add_tag U R [] (tag_or_name d)
      | VList items \<Rightarrow> foldl (add_item U R) [] items
      | VNone \<Rightarrow> [])"

text \<open>
  The duplicates are removed, keeping the first of every lowercase form:
  \<^verbatim>\<open>
    for tag in tag_names:
        clean = tag.strip()
        if not clean: continue
        lowered = clean.lower()
        if lowered not in seen:
            seen.add(lowered); unique_tags.append(clean)
  \<close>
\<close>

fun unique_tags :: "unicode \<Rightarrow> pystr set \<Rightarrow> pystr list \<Rightarrow> pystr list" where
  "unique_tags U seen [] = []"
| "unique_tags U seen (tag # rest) =
     (let clean = strip U tag in
      if clean = [] then unique_tags U seen rest
      else if u_lower U clean \<notin> seen
        then clean # unique_tags U (insert (u_lower U clean) seen) rest
        else unique_tags U seen rest)"

text \<open>
  The current tags of the entity. The attribute is read with
  \<open>getattr(plex_item, rest_field, []) or []\<close> and iterated: a list of tags gives its tags,
  a string its characters, and a non-zero integer or another true object raises
  \<open>TypeError\<close>.
\<close>

definition getattr :: "plex_item \<Rightarrow> pystr \<Rightarrow> attr_value option" where
  "getattr item name = map_of (attrs item) name"

definition truthy_opt :: "pystr option \<Rightarrow> pystr option" where
  "truthy_opt s = (if truthy_str s then s else None)"

definition tag_candidate :: "unicode \<Rightarrow> plex_tag \<Rightarrow> pystr list" where
  "tag_candidate U t =
     (case t of
        TagStr s \<Rightarrow> (if strip U s \<noteq> [] then [strip U s] else [])
      | TagObj tg nm \<Rightarrow>
          (case (if truthy_str tg then tg else truthy_opt nm) of
             None \<Rightarrow> []
           | Some tagname \<Rightarrow> (if strip U tagname \<noteq> [] then [strip U tagname] else [])))"

definition iterate_tags :: "attr_value option \<Rightarrow> error + plex_tag list" where
  "iterate_tags a =
     (case a of
        None \<Rightarrow> Inr []
      | Some ANone \<Rightarrow> Inr []
      | Some (ATags ts) \<Rightarrow> Inr ts
      | Some (AStr s) \<Rightarrow> Inr (map (\<lambda>c. TagStr [c]) s)
      | Some (AInt n) \<Rightarrow> (if n = 0 then Inr [] else Inl TypeError)
      | Some (AObj s t) \<Rightarrow> (if t then Inl TypeError else Inr []))"

fun dedup_existing :: "unicode \<Rightarrow> pystr set \<Rightarrow> pystr list \<Rightarrow> pystr list" where
  "dedup_existing U seen [] = []"
| "dedup_existing U seen (t # rest) =
     (if u_lower U t \<notin> seen then t # dedup_existing U (insert (u_lower U t) seen) rest
      else dedup_existing U seen rest)"

definition existing_tags_of :: "unicode \<Rightarrow> plex_item \<Rightarrow> pystr \<Rightarrow> error + pystr list" where
  "existing_tags_of U item rest_field =
     (case iterate_tags (getattr item rest_field) of
        Inl e \<Rightarrow> Inl e
      | Inr ts \<Rightarrow> Inr (dedup_existing U {} (concat (map (tag_candidate U) ts))))"

text \<open>\<open>any(sep in tag for sep in combined_seps)\<close>\<close>

definition is_combined :: "pystr \<Rightarrow> bool" where
  "is_combined tag = list_ex (\<lambda>c. c \<in> separators) tag"

text \<open>The planned operations, the dictionaries of the list \<open>planned_ops\<close>.\<close>

datatype update_op =
    FieldOp pystr pystr pystr
  | TagOp pystr "pystr list" "pystr list"

text \<open>
  \<open>str(getattr(plex_item, rest_field, "") or "").strip()\<close>, the current value of a
  single-valued field.
\<close>

definition current_value_of :: "unicode \<Rightarrow> py_repr \<Rightarrow> plex_item \<Rightarrow> pystr \<Rightarrow> pystr" where
  "current_value_of U R item rest_field =
     strip U
       (case getattr item rest_field of
          None \<Rightarrow> []
        | Some ANone \<Rightarrow> []
        | Some (AStr s) \<Rightarrow> s
        | Some (AInt n) \<Rightarrow> (if n = 0 then [] else str_int n)
        | Some (ATags ts) \<Rightarrow> (if ts = [] then [] else repr_tags R ts)
        | Some (AObj s t) \<Rightarrow> (if t then s else []))"

text \<open>
  One turn of the loop over \<open>nfo_data.items()\<close>: the operations planned for one key, or
  the exception raised.
\<close>

definition plan_entry ::
  "unicode \<Rightarrow> py_repr \<Rightarrow> settings \<Rightarrow> plex_item \<Rightarrow> pystr \<Rightarrow> nfo_value \<Rightarrow> error + update_op list"
  where
  "plan_entry U R cfg item nfo_key nfo_value =
     (case map_of SUPPORTED_FIELD_MAP nfo_key of
        None \<Rightarrow> Inr []
      | Some (rest_field, is_tag) \<Rightarrow>
          if \<not> truthy_nfo nfo_value then Inr []
          else if is_tag then
            (let unique = unique_tags U {} (gather_tag_names U R nfo_value) in
             if unique = [] then Inr []
             else
               (case existing_tags_of U item rest_field of
                  Inl e \<Rightarrow> Inl e
                | Inr existing_tags \<Rightarrow>
                    (let refined_tags = filter (\<lambda>tag. \<not> is_combined tag) unique in
                     if refined_tags = [] then Inr []
                     else Inr [TagOp rest_field refined_tags existing_tags])))
          else
            (let new_value = strip U (str_nfo R nfo_value);
                 current_value = current_value_of U R item rest_field
             in if new_value = current_value then Inr []
                else
                  (let locked = (case isLocked item rest_field of None \<Rightarrow> False | Some b \<Rightarrow> b)
                   in if locked \<and> \<not> ALLOW_UNLOCK cfg then Inr []
                      else Inr [FieldOp rest_field new_value current_value])))"

fun plan_ops ::
  "unicode \<Rightarrow> py_repr \<Rightarrow> settings \<Rightarrow> plex_item \<Rightarrow> (pystr \<times> nfo_value) list \<Rightarrow>
   error + update_op list" where
  "plan_ops U R cfg item [] = Inr []"
| "plan_ops U R cfg item ((nfo_key, nfo_value) # rest) =
     (case plan_entry U R cfg item nfo_key nfo_value of
        Inl e \<Rightarrow> Inl e
      | Inr ops \<Rightarrow>
          (case plan_ops U R cfg item rest of
             Inl e \<Rightarrow> Inl e
           | Inr later \<Rightarrow> Inr (ops @ later)))"

text \<open>
  The entries appended to the lists of \<open>STATS\<close>: to \<open>skipped_missing_field\<close> by the
  validation pass, to \<open>skipped\<close>, \<open>failed\<close> and \<open>updated\<close> by the rest.
\<close>

datatype stat_entry =
    MissingField pystr
  | MissingTagCollection pystr
  | NoChangesRequired
  | DryRunActivated
  | ErrorWhileUpdating
  | Updated

text \<open>\<open>rest.rstrip('s')\<close>\<close>

definition rstrip_s :: "pystr \<Rightarrow> pystr" where
  "rstrip_s rest = rev (dropWhile (\<lambda>c. c = 115) (rev rest))"

text \<open>
  The validation pass: an operation is kept when the entity has the attribute
  (\<open>getattr(plex_item, rest, sentinel)\<close> is not the sentinel), a tag operation also when
  it has the attribute of the singular name. It returns the validated operations and the
  entries recorded.
\<close>

fun validate_ops :: "plex_item \<Rightarrow> update_op list \<Rightarrow> update_op list \<times> stat_entry list" where
  "validate_ops item [] = ([], [])"
| "validate_ops item (FieldOp rest v old # ops) =
     (let (validated, missing) = validate_ops item ops in
      if getattr item rest = None then (validated, MissingField rest # missing)
      else (FieldOp rest v old # validated, missing))"
| "validate_ops item (TagOp rest new existing # ops) =
     (let (validated, missing) = validate_ops item ops in
      if getattr item rest = None \<and> getattr item (rstrip_s rest) = None
      then (validated, MissingTagCollection rest # missing)
      else (TagOp rest new existing # validated, missing))"

section \<open>Update executor\<close>

text \<open>
  The calls that \<open>update_plex_item_fields\<close> makes on the entity, and the call of the
  artwork matcher \<open>update_plex_item_artwork\<close>. \<open>EditField\<close> carries the field, the value
  and the lock flag; \<open>EditTags\<close> the collection, the items, \<open>remove\<close> and the lock flag.
\<close>

datatype action =
    BatchEdits
  | EditField pystr pystr bool
  | EditTags pystr "pystr list" bool bool
  | SaveEdits
  | Sleep
  | Reload
  | UpdateArtwork

text \<open>\<open>xs[i:i+MAX_TAG_BATCH] for i in range(0, len(xs), MAX_TAG_BATCH)\<close>\<close>

definition MAX_TAG_BATCH :: nat where
  "MAX_TAG_BATCH = 5"

function chunks :: "'a list \<Rightarrow> 'a list list" where
  "chunks xs = (if xs = [] then [] else take MAX_TAG_BATCH xs # chunks (drop MAX_TAG_BATCH xs))"
  by pat_completeness auto

termination
  by (relation "measure length") (auto simp: MAX_TAG_BATCH_def)

declare chunks.simps [simp del]

text \<open>
  The calls queued for one operation. With \<open>ALLOW_UNLOCK\<close> the existing tags are removed
  and the new ones added; without it only the new tags absent from the existing ones
  (compared in lowercase) are added.
\<close>

definition op_calls :: "unicode \<Rightarrow> settings \<Rightarrow> update_op \<Rightarrow> action list" where
  "op_calls U cfg op =
     (case op of
        FieldOp rest_field v old \<Rightarrow> [EditField rest_field v (ALLOW_UNLOCK cfg)]
      | TagOp rest_field refined_tags existing_tags \<Rightarrow>
          if ALLOW_UNLOCK cfg then
            map (\<lambda>c. EditTags rest_field c True True) (chunks existing_tags)
            @ map (\<lambda>c. EditTags rest_field c False True) (chunks refined_tags)
          else
            map (\<lambda>c. EditTags rest_field c False True)
              (chunks (filter (\<lambda>t. u_lower U t \<notin> u_lower U ` set existing_tags) refined_tags)))"

text \<open>
  The calls are made in order until one raises; the result is the calls made and whether
  the last of them raised. \<open>raises\<close> says which calls the service fails.
\<close>

fun run_calls :: "(action \<Rightarrow> bool) \<Rightarrow> action list \<Rightarrow> action list \<times> bool" where
  "run_calls raises [] = ([], False)"
| "run_calls raises (a # rest) =
     (if raises a then ([a], True)
      else (let (made, failed) = run_calls raises rest in (a # made, failed)))"

text \<open>
  What one call of \<open>update_plex_item_fields\<close> does: the entries appended to \<open>STATS\<close>, the
  calls made, and whether an exception left the function.
\<close>

record run_result =
  stats :: "stat_entry list"
  calls :: "action list"
  raised :: bool

text \<open>
  The end of the function, after the \<open>try\<close> statement:
  \<open>if edits_applied or ALWAYS_UPDATE_ART: update_plex_item_artwork(plex_item, nfo_file)\<close>.
\<close>

definition final_artwork ::
  "settings \<Rightarrow> (action \<Rightarrow> bool) \<Rightarrow> stat_entry list \<Rightarrow> action list \<Rightarrow> bool \<Rightarrow> run_result" where
  "final_artwork cfg raises st cs edits_applied =
     (if edits_applied \<or> ALWAYS_UPDATE_ART cfg
      then \<lparr> stats = st, calls = cs @ [UpdateArtwork], raised = raises UpdateArtwork \<rparr>
      else \<lparr> stats = st, calls = cs, raised = False \<rparr>)"

text \<open>
  \<open>update_plex_item_fields\<close>. The body is one \<open>try\<close> statement whose \<open>except\<close> arm records
  the failure; the two early \<open>return\<close>s (empty plan, dry run) leave the function from
  inside it, so the artwork call after the \<open>try\<close> is reached only after the live edits
  or after an exception.
\<close>

definition update_plex_item_fields ::
  "unicode \<Rightarrow> py_repr \<Rightarrow> settings \<Rightarrow> (action \<Rightarrow> bool) \<Rightarrow> plex_item \<Rightarrow>
   (pystr \<times> nfo_value) list \<Rightarrow> run_result" where
  "update_plex_item_fields U R cfg raises plex_item nfo_data =
     (case plan_ops U R cfg plex_item nfo_data of
        Inl e \<Rightarrow> final_artwork cfg raises [ErrorWhileUpdating] [] False
      | Inr planned \<Rightarrow>
          (let (planned_ops, missing) = validate_ops plex_item planned in
           if planned_ops = [] then
             (if ALWAYS_UPDATE_ART cfg then
                (if raises UpdateArtwork
                 then final_artwork cfg raises (missing @ [NoChangesRequired, ErrorWhileUpdating])
                        [UpdateArtwork] False
                 else \<lparr> stats = missing @ [NoChangesRequired], calls = [UpdateArtwork],
                        raised = False \<rparr>)
              else \<lparr> stats = missing @ [NoChangesRequired], calls = [], raised = False \<rparr>)
           else if DRY_RUN cfg then
             (if raises UpdateArtwork
              then final_artwork cfg raises (missing @ [DryRunActivated, ErrorWhileUpdating])
                     [UpdateArtwork] False
              else \<lparr> stats = missing @ [DryRunActivated], calls = [UpdateArtwork],
                     raised = False \<rparr>)
           else
             (let (made, failed) =
                    run_calls raises
                      (BatchEdits # concat (map (op_calls U cfg) planned_ops) @ [SaveEdits])
              in if failed then final_artwork cfg raises (missing @ [ErrorWhileUpdating]) made False
                 else
                   (let made = made @ (if CUSTOM_DELAY cfg > 0 then [Sleep] else []) @ [Reload]
                    in if raises Reload
                       then final_artwork cfg raises (missing @ [Updated, ErrorWhileUpdating])
                              made True
                       else final_artwork cfg raises (missing @ [Updated]) made True))))"

text \<open>
  Applying a tag operation to the entity: its collection becomes the planned new tags,
  each a tag object of that name.
\<close>

definition apply_tag_op :: "plex_item \<Rightarrow> pystr \<Rightarrow> pystr list \<Rightarrow> plex_item" where
  "apply_tag_op item rest_field new_tags =
     item \<lparr> attrs := AList.update rest_field (ATags (map (\<lambda>t. TagObj (Some t) None) new_tags))
                       (attrs item) \<rparr>"

text \<open>A list of tag names that are non-empty and have no whitespace at their ends.\<close>

definition stripped :: "unicode \<Rightarrow> pystr list \<Rightarrow> bool" where
  "stripped U xs = (\<forall>t\<in>set xs. strip U t = t \<and> t \<noteq> [])"

section \<open>Example catalog data\<close>

text \<open>
  A top-level catalog object (no parent) of a given kind, title, year and rating key, and
  a catalog service whose title search returns a fixed list. They are the inputs on which
  the properties below are evaluated.
\<close>

definition catalog_obj :: "pystr option \<Rightarrow> pystr \<Rightarrow> int option \<Rightarrow> int \<Rightarrow> plex_obj" where
  "catalog_obj kind title year rk =
     \<lparr> p_type = kind, p_title = Some title, p_name = None, p_year = year,
       p_ratingKey = Some (Some rk), p_parentRatingKey = None, p_grandparentRatingKey = None,
       p_key = Some (py ''/library/metadata/'' @ str_int rk), p_parentTitle = None,
       p_grandparentTitle = None, p_str = title \<rparr>"

definition search_only :: "plex_obj list \<Rightarrow> plex_server" where
  "search_only found =
     \<lparr> plex_search = (\<lambda>t. Some found), plex_seasons = (\<lambda>p. None),
       plex_episodes = (\<lambda>p. None), plex_children = (\<lambda>p. []) \<rparr>"

definition alien3 :: plex_obj where
  "alien3 = catalog_obj (Some (py ''movie'')) (py ''Alien 3'') (Some 1992) 7"

definition alien_movie :: plex_obj where
  "alien_movie = catalog_obj (Some (py ''movie'')) (py ''Alien'') (Some 1979) 5"

definition alien_show :: plex_obj where
  "alien_show = catalog_obj (Some (py ''show'')) (py ''Alien'') None 8"

definition alien_untyped :: plex_obj where
  "alien_untyped = catalog_obj None (py ''Alien'') None 9"

definition zero_movie :: plex_obj where
  "zero_movie = catalog_obj (Some (py ''movie'')) (py ''Zero'') (Some 0) 11"

text \<open>
  A catalog entity with a title and a tag collection under a given attribute name, a
  \<open>repr\<close> that is never reached on the examples, and a run configuration with a given
  \<open>ALWAYS_UPDATE_ART\<close>.
\<close>

definition example_item :: "pystr \<Rightarrow> attr_value \<Rightarrow> plex_item" where
  "example_item collection tags =
     \<lparr> attrs = [(py ''title'', AStr (py ''Alien'')), (collection, tags)],
       isLocked = (\<lambda>field. Some False) \<rparr>"

definition example_repr :: py_repr where
  "example_repr = \<lparr> repr_nfo = (\<lambda>v. py ''{}''), repr_tags = (\<lambda>ts. py ''[]'') \<rparr>"

definition example_settings :: "bool \<Rightarrow> settings" where
  "example_settings always =
     \<lparr> ALLOW_UNLOCK = False, DRY_RUN = False, ALWAYS_UPDATE_ART = always, CUSTOM_DELAY = 0 \<rparr>"

section \<open>Properties of the title normalizer\<close>

lemma strip_Nil: "strip U [] = []"
  by (simp add: strip_def)

lemma dropWhile_fixed: "xs = [] \<or> \<not> p (hd xs) \<Longrightarrow> dropWhile p xs = xs"
  by (cases xs) auto

lemma last_dropWhile: "dropWhile p xs \<noteq> [] \<Longrightarrow> last (dropWhile p xs) = last xs"
  by (induction xs) (auto split: if_splits)

lemma strip_idem: "strip U (strip U s) = strip U s"
proof -
  let ?p = "u_isspace U"
  let ?d = "dropWhile ?p s"
  let ?r = "dropWhile ?p (rev ?d)"
  have a: "dropWhile ?p (rev ?r) = rev ?r"
  proof (cases "?r = []")
    case True
    show ?thesis unfolding True by simp
  next
    case False
    have d: "?d \<noteq> []"
    proof
      assume e: "?d = []"
      have "?r = []" unfolding e by simp
      with False show False by blast
    qed
    have "last ?r = last (rev ?d)"
      using False by (rule last_dropWhile)
    also have "\<dots> = hd ?d"
      using d by (simp add: last_rev)
    finally have "hd (rev ?r) = hd ?d"
      using False by (simp add: hd_rev)
    moreover have "\<not> ?p (hd ?d)"
      using d by (rule hd_dropWhile)
    ultimately show ?thesis
      by (intro dropWhile_fixed) simp
  qed
  have b: "dropWhile ?p ?r = ?r"
    by (simp add: dropWhile_idem)
  show ?thesis
    unfolding strip_def using a b by simp
qed

text \<open>
  C5 (as stated): normalization is idempotent for every input string. It is not:
  U+00A8 is not whitespace, so \<open>strip\<close> keeps it; its decomposition is a space followed by
  a combining mark; the mark is removed and the space stays. Normalizing the result
  again strips that space.
\<close>

theorem normalize_title_not_idempotent:
  "normalize_title unicode_excerpt (Some [168]) = [32] \<and>
   normalize_title unicode_excerpt (Some (normalize_title unicode_excerpt (Some [168]))) = [] \<and>
   normalize_title unicode_excerpt (Some (normalize_title unicode_excerpt (Some [168])))
     \<noteq> normalize_title unicode_excerpt (Some [168])"
  by (simp add: normalize_title_def unicode_excerpt_def strip_def excerpt_isspace_def
      excerpt_decomposition_def excerpt_combining_def ascii_lower_def)

lemma normalize_title_fold: "normalize_title U (Some t) = decompose_fold U (strip U t)"
  by (simp add: normalize_title_def decompose_fold_def)

text \<open>
  C5 (amended): normalization is total and \<open>None\<close> yields the empty string; with
  tables that are stable, as those of CPython are, the empty string yields the empty
  string, and normalizing twice is normalizing once for every string whose normalized
  form has no whitespace at its ends. (The strings that fail are those whose
  decomposition leaves whitespace at an end, as U+00A8 does.)
\<close>

theorem normalize_title_idempotent:
  "normalize_title U None = [] \<and>
   (stable_tables U \<longrightarrow> normalize_title U (Some []) = []) \<and>
   (stable_tables U \<and> strip U (normalize_title U (Some s)) = normalize_title U (Some s) \<longrightarrow>
      normalize_title U (Some (normalize_title U (Some s))) = normalize_title U (Some s))"
proof (intro conjI impI)
  show "normalize_title U None = []"
    by (simp add: normalize_title_def)
  show "normalize_title U (Some []) = []" if "stable_tables U"
    using that by (simp add: normalize_title_fold strip_Nil stable_tables_def)
  show "normalize_title U (Some (normalize_title U (Some s))) = normalize_title U (Some s)"
    if h: "stable_tables U \<and> strip U (normalize_title U (Some s)) = normalize_title U (Some s)"
  proof -
    have "normalize_title U (Some (normalize_title U (Some s)))
            = decompose_fold U (strip U (normalize_title U (Some s)))"
      by (rule normalize_title_fold)
    also have "\<dots> = decompose_fold U (normalize_title U (Some s))"
      using h by simp
    also have "\<dots> = decompose_fold U (decompose_fold U (strip U s))"
      by (simp add: normalize_title_fold)
    also have "\<dots> = decompose_fold U (strip U s)"
      using h by (simp add: stable_tables_def)
    finally show ?thesis by (simp add: normalize_title_fold)
  qed
qed

lemma excerpt_fold_chars: "decompose_fold unicode_excerpt t = concat (map excerpt_char t)"
  by (induction t) (simp_all add: decompose_fold_def unicode_excerpt_def excerpt_char_def)

lemma excerpt_char_fixed: "d \<in> set (excerpt_char c) \<Longrightarrow> excerpt_char d = [d]"
  by (auto simp: excerpt_char_def excerpt_decomposition_def excerpt_combining_def
      ascii_lower_def split: if_splits)

lemma concat_fixed: "\<forall>d\<in>set xs. f d = [d] \<Longrightarrow> concat (map f xs) = xs"
  by (induction xs) simp_all

lemma excerpt_stable: "stable_tables unicode_excerpt"
proof -
  have "concat (map excerpt_char (concat (map excerpt_char t))) = concat (map excerpt_char t)"
    for t
  proof (induction t)
    case Nil
    then show ?case by simp
  next
    case (Cons c t)
    have "concat (map excerpt_char (excerpt_char c)) = excerpt_char c"
      using excerpt_char_fixed by (intro concat_fixed) blast
    with Cons show ?case by simp
  qed
  then show ?thesis
    by (simp add: stable_tables_def excerpt_fold_chars)
qed

lemma example_amelie:
  "normalize_title unicode_excerpt (Some [65, 109, 233, 108, 105, 101]) = py ''amelie''"
  "strip unicode_excerpt (py ''amelie'') = py ''amelie''"
  by code_simp+

theorem normalize_title_idempotent_witness:
  "normalize_title unicode_excerpt (Some [65, 109, 233, 108, 105, 101]) = py ''amelie'' \<and>
   normalize_title unicode_excerpt
     (Some (normalize_title unicode_excerpt (Some [65, 109, 233, 108, 105, 101]))) = py ''amelie''"
  using normalize_title_idempotent [of unicode_excerpt "[65, 109, 233, 108, 105, 101]"]
    excerpt_stable example_amelie
  by simp

section \<open>Properties of the candidate scorer\<close>

lemma set_sort_scored: "set (sort_scored xs) = set xs"
  by (simp add: sort_scored_def)

lemma mset_sort_scored: "mset (sort_scored xs) = mset xs"
  by (simp add: sort_scored_def)

lemma candidates_select_matches:
  "candidates (select_matches xs) = map sc_cand (sort_scored xs)"
  by (simp add: select_matches_def no_result_def split: list.split)

lemma nb_excellent_select_matches:
  "nb_excellent_match (select_matches xs)
     = length (filter (\<lambda>x. sc_score x \<ge> 99) (sort_scored xs))"
  by (simp add: select_matches_def no_result_def split: list.split)

lemma score_loop_entry:
  "x \<in> set (score_loop U mt raw year parent i cs) \<Longrightarrow>
     \<not> excluded mt (sc_cand x) \<and>
     sc_score x = score_candidate U raw year parent (sc_cand x) \<and>
     sc_norm_title x = normalize_title U (Some (cand_title_of (sc_cand x))) \<and>
     i \<le> sc_idx x \<and> sc_idx x < i + length cs \<and> cs ! (sc_idx x - i) = sc_cand x"
proof (induction cs arbitrary: i)
  case Nil
  then show ?case by simp
next
  case (Cons c cs)
  show ?case
  proof (cases "x \<in> set (score_loop U mt raw year parent (Suc i) cs)")
    case True
    from Cons.IH [OF True] show ?thesis
      by (auto simp: Suc_diff_le)
  next
    case False
    with Cons.prems show ?thesis
      by (auto split: if_splits)
  qed
qed

lemma score_loop_distinct_idx:
  "distinct (map sc_idx (score_loop U mt raw year parent i cs))"
proof (induction cs arbitrary: i)
  case Nil
  then show ?case by simp
next
  case (Cons c cs)
  have "\<forall>x\<in>set (score_loop U mt raw year parent (Suc i) cs). sc_idx x \<noteq> i"
    using score_loop_entry by fastforce
  then show ?case using Cons.IH [of "Suc i"] by auto
qed

lemma title_score_values:
  "title_score U raw year cand \<in> {0, 20, 25, 99, 100}"
  by (simp add: title_score_def Let_def)

lemma title_score_exact:
  "title_score U raw year cand \<ge> 99
     \<longleftrightarrow> normalize_title U (Some (cand_title_of cand)) = normalize_title U (Some raw)"
  by (simp add: title_score_def Let_def)

lemma score_candidate_bound:
  assumes "normalize_title U (Some (cand_title_of cand)) \<noteq> normalize_title U (Some raw)"
  shows "score_candidate U raw year parent cand \<le> 55"
proof -
  have "title_score U raw year cand \<le> 25"
    using assms by (simp add: title_score_def Let_def)
  then show ?thesis
    by (auto simp: score_candidate_def Let_def split: option.split)
qed

lemma sorted_key_nth:
  assumes "sorted (map f ys)" "i < j" "j < length ys"
  shows "f (ys ! i) \<le> f (ys ! j)"
proof -
  have "map f ys ! i \<le> map f ys ! j"
    using assms by (intro sorted_nth_mono) simp_all
  then show ?thesis using assms by simp
qed

lemma score_loop_complete:
  "c \<in> set cs \<Longrightarrow> \<not> excluded mt c \<Longrightarrow>
     \<exists>x\<in>set (score_loop U mt raw year parent i cs). sc_cand x = c"
  by (induction cs arbitrary: i) auto

lemma search_scoring_path:
  assumes "strip U title \<noteq> []"
    and "\<forall>p. parent = Some p \<longrightarrow>
           \<not> parent_self_match U (fst (extract_trailing_year U (strip U title)))
               (snd (extract_trailing_year U (strip U title))) p"
    and "candidates_to_score srv mt parent (fst (extract_trailing_year U (strip U title)))
           = Some hits"
  shows "search_plex_for_media_by_title U srv title mt parent
           = select_matches
               (score_loop U mt (fst (extract_trailing_year U (strip U title)))
                  (snd (extract_trailing_year U (strip U title))) parent 0 hits)"
  using assms
  by (auto simp: search_plex_for_media_by_title_def Let_def split: prod.splits option.splits)

lemma scored_sorted_stable:
  "mset (sort_scored (score_loop U mt raw year parent 0 cands))
     = mset (score_loop U mt raw year parent 0 cands) \<and>
   candidates (select_matches (score_loop U mt raw year parent 0 cands))
     = map sc_cand (sort_scored (score_loop U mt raw year parent 0 cands)) \<and>
   (\<forall>i j. i < j \<and> j < length (sort_scored (score_loop U mt raw year parent 0 cands)) \<longrightarrow>
      (let a = sort_scored (score_loop U mt raw year parent 0 cands) ! i;
           b = sort_scored (score_loop U mt raw year parent 0 cands) ! j
       in sc_score a > sc_score b \<or> (sc_score a = sc_score b \<and> sc_idx a < sc_idx b))) \<and>
   (\<forall>x \<in> set (sort_scored (score_loop U mt raw year parent 0 cands)).
      sc_idx x < length cands \<and> cands ! sc_idx x = sc_cand x)"
proof (intro conjI allI impI ballI)
  let ?xs = "score_loop U mt raw year parent 0 cands"
  let ?ys = "sort_scored ?xs"
  show "mset ?ys = mset ?xs" by (rule mset_sort_scored)
  show "candidates (select_matches ?xs) = map sc_cand ?ys" by (rule candidates_select_matches)
  have d: "distinct (map sc_idx ?ys)"
  proof -
    have "mset (map sc_idx ?ys) = mset (map sc_idx ?xs)"
      by (simp add: mset_sort_scored)
    then show ?thesis
      using score_loop_distinct_idx [of U mt raw year parent 0 cands]
      by (metis mset_eq_imp_distinct_iff)
  qed
  have s: "sorted (map (\<lambda>x. (- sc_score x, sc_idx x)) ?ys)"
    by (simp add: sort_scored_def)
  show "let a = ?ys ! i; b = ?ys ! j
       in sc_score a > sc_score b \<or> (sc_score a = sc_score b \<and> sc_idx a < sc_idx b)"
    if ij: "i < j \<and> j < length ?ys" for i j
  proof -
    have le: "(- sc_score (?ys ! i), sc_idx (?ys ! i)) \<le> (- sc_score (?ys ! j), sc_idx (?ys ! j))"
      using sorted_key_nth [OF s, of i j] ij by simp
    have "sc_idx (?ys ! i) \<noteq> sc_idx (?ys ! j)"
      using d ij by (simp add: distinct_conv_nth)
    with le show ?thesis
      by (auto simp: Let_def less_eq_prod_def)
  qed
  have e: "sc_idx x < length cands \<and> cands ! sc_idx x = sc_cand x" if "x \<in> set ?ys" for x
  proof -
    from that have "x \<in> set ?xs" by (simp add: set_sort_scored)
    from score_loop_entry [OF this] show ?thesis by simp
  qed
  show "sc_idx x < length cands" if "x \<in> set ?ys" for x
    using e [OF that] by simp
  show "cands ! sc_idx x = sc_cand x" if "x \<in> set ?ys" for x
    using e [OF that] by simp
qed

text \<open>
  C9: every candidate counted in \<open>nb_excellent_match\<close> (score at least 99) has a
  normalized title equal to the normalized search title; a candidate whose normalized
  title differs scores at most 55 whatever the substring score, the prefix bonus, the
  noise floor and the parent bonus give; and the parent self-match requires the equality
  of the normalized titles too.
\<close>

theorem excellent_only_exact_title:
  "(\<forall>x \<in> set (filter (\<lambda>x. sc_score x \<ge> 99)
        (sort_scored (score_loop U mt raw year parent 0 cands))).
      normalize_title U (Some (cand_title_of (sc_cand x))) = normalize_title U (Some raw)) \<and>
   nb_excellent_match (select_matches (score_loop U mt raw year parent 0 cands))
     = length (filter (\<lambda>x. sc_score x \<ge> 99)
         (sort_scored (score_loop U mt raw year parent 0 cands))) \<and>
   (normalize_title U (Some (cand_title_of cand)) \<noteq> normalize_title U (Some raw) \<longrightarrow>
      score_candidate U raw year parent cand \<le> 55) \<and>
   (parent_self_match U raw year p \<longrightarrow>
      normalize_title U (p_title p) = normalize_title U (Some raw))"
proof (intro conjI ballI impI)
  let ?xs = "score_loop U mt raw year parent 0 cands"
  show "nb_excellent_match (select_matches ?xs)
     = length (filter (\<lambda>x. sc_score x \<ge> 99) (sort_scored ?xs))"
    by (rule nb_excellent_select_matches)
  {
    fix x assume "x \<in> set (filter (\<lambda>x. sc_score x \<ge> 99) (sort_scored ?xs))"
    then have x: "x \<in> set ?xs" and hi: "sc_score x \<ge> 99"
      by (simp_all add: set_sort_scored)
    from score_loop_entry [OF x]
    have sc: "sc_score x = score_candidate U raw year parent (sc_cand x)" by simp
    show "normalize_title U (Some (cand_title_of (sc_cand x))) = normalize_title U (Some raw)"
    proof (rule ccontr)
      assume "normalize_title U (Some (cand_title_of (sc_cand x))) \<noteq> normalize_title U (Some raw)"
      from score_candidate_bound [OF this, of year parent] sc hi show False by simp
    qed
  }
  {
    assume "normalize_title U (Some (cand_title_of cand)) \<noteq> normalize_title U (Some raw)"
    then show "score_candidate U raw year parent cand \<le> 55" by (rule score_candidate_bound)
  }
  {
    assume "parent_self_match U raw year p"
    then show "normalize_title U (p_title p) = normalize_title U (Some raw)"
      by (simp add: parent_self_match_def)
  }
qed

lemma title_score_rules:
  "(normalize_title U (Some (cand_title_of cand)) = normalize_title U (Some raw) \<longrightarrow>
      title_score U raw year cand
        = (if year \<noteq> None \<and> year \<noteq> Some 0 \<and> p_year cand = year then 100 else 99)) \<and>
   (normalize_title U (Some (cand_title_of cand)) \<noteq> normalize_title U (Some raw) \<and>
    sublist (normalize_title U (Some raw)) (normalize_title U (Some (cand_title_of cand))) \<longrightarrow>
      title_score U raw year cand
        = (if prefix (u_lower U raw) (u_lower U (cand_title_of cand)) then 20 + 5 else 20))"
  by (auto simp: title_score_def Let_def truthy_int_def cand_year_int_of_def split: option.splits)

lemma example_scores:
  "map sc_score (sort_scored (score_loop unicode_excerpt None (py ''Alien'') None None 0
      [alien3, alien_movie, alien_show])) = [99, 99, 25]"
  "map sc_idx (sort_scored (score_loop unicode_excerpt None (py ''Alien'') None None 0
      [alien3, alien_movie, alien_show])) = [1, 2, 0]"
  by code_simp+

lemma example_sort_path:
  "strip unicode_excerpt (py ''Alien'') \<noteq> []"
  "extract_trailing_year unicode_excerpt (strip unicode_excerpt (py ''Alien'')) = (py ''Alien'', None)"
  "candidates_to_score (search_only [alien3, alien_movie, alien_show]) None None (py ''Alien'')
     = Some [alien3, alien_movie, alien_show]"
  "map sc_cand (sort_scored (score_loop unicode_excerpt None (py ''Alien'') None None 0
      [alien3, alien_movie, alien_show])) = [alien_movie, alien_show, alien3]"
  by code_simp+

text \<open>
  C7: when \<open>search_plex_for_media_by_title\<close> scores a list of candidates, the
  candidates of its result are those of the scored entries sorted descending by score,
  with ties in discovery order: the sorted entries are a permutation of the scored ones,
  an earlier entry has a greater score than a later one or the same score and a smaller
  discovery index, and every entry carries its position in the list of candidates and
  the score of its candidate.
\<close>

theorem search_result_sorted_stable:
  assumes "strip U title \<noteq> []"
    and "extract_trailing_year U (strip U title) = (raw, year)"
    and "\<forall>p. parent = Some p \<longrightarrow> \<not> parent_self_match U raw year p"
    and "candidates_to_score srv mt parent raw = Some hits"
  shows "candidates (search_plex_for_media_by_title U srv title mt parent)
           = map sc_cand (sort_scored (score_loop U mt raw year parent 0 hits)) \<and>
         mset (sort_scored (score_loop U mt raw year parent 0 hits))
           = mset (score_loop U mt raw year parent 0 hits) \<and>
         (\<forall>i j. i < j \<and> j < length (sort_scored (score_loop U mt raw year parent 0 hits)) \<longrightarrow>
            (let a = sort_scored (score_loop U mt raw year parent 0 hits) ! i;
                 b = sort_scored (score_loop U mt raw year parent 0 hits) ! j
             in sc_score a > sc_score b \<or> (sc_score a = sc_score b \<and> sc_idx a < sc_idx b))) \<and>
         (\<forall>x \<in> set (sort_scored (score_loop U mt raw year parent 0 hits)).
            sc_idx x < length hits \<and> hits ! sc_idx x = sc_cand x \<and>
            sc_score x = score_candidate U raw year parent (sc_cand x))"
proof -
  let ?L = "score_loop U mt raw year parent 0 hits"
  from assms have "search_plex_for_media_by_title U srv title mt parent = select_matches ?L"
    using search_scoring_path [of U title parent srv mt hits] by simp
  then have a: "candidates (search_plex_for_media_by_title U srv title mt parent)
                  = map sc_cand (sort_scored ?L)"
    by (simp add: candidates_select_matches)
  have b: "\<forall>x \<in> set (sort_scored ?L). sc_score x = score_candidate U raw year parent (sc_cand x)"
    using score_loop_entry by (auto simp: set_sort_scored)
  from a b scored_sorted_stable [of U mt raw year parent hits] show ?thesis by blast
qed

theorem search_result_sorted_stable_witness:
  "candidates (search_plex_for_media_by_title unicode_excerpt
      (search_only [alien3, alien_movie, alien_show]) (py ''Alien'') None None)
     = [alien_movie, alien_show, alien3] \<and>
   map sc_score (sort_scored (score_loop unicode_excerpt None (py ''Alien'') None None 0
      [alien3, alien_movie, alien_show])) = [99, 99, 25] \<and>
   map sc_idx (sort_scored (score_loop unicode_excerpt None (py ''Alien'') None None 0
      [alien3, alien_movie, alien_show])) = [1, 2, 0]"
proof -
  have p: "\<forall>p. (None :: plex_obj option) = Some p
             \<longrightarrow> \<not> parent_self_match unicode_excerpt (py ''Alien'') None p"
    by simp
  from search_result_sorted_stable [OF example_sort_path(1) example_sort_path(2) p
      example_sort_path(3)]
  have "candidates (search_plex_for_media_by_title unicode_excerpt
      (search_only [alien3, alien_movie, alien_show]) (py ''Alien'') None None)
     = map sc_cand (sort_scored (score_loop unicode_excerpt None (py ''Alien'') None None 0
      [alien3, alien_movie, alien_show]))"
    by blast
  with example_sort_path(4) example_scores show ?thesis by simp
qed

lemma example_excellent:
  "map sc_cand (filter (\<lambda>x. sc_score x \<ge> 99)
     (sort_scored (score_loop unicode_excerpt None (py ''Alien'') None None 0
        [alien3, alien_movie]))) = [alien_movie]"
  "score_candidate unicode_excerpt (py ''Alien'') None None alien3 = 25"
  by code_simp+

theorem excellent_only_exact_title_witness:
  "map sc_cand (filter (\<lambda>x. sc_score x \<ge> 99)
     (sort_scored (score_loop unicode_excerpt None (py ''Alien'') None None 0
        [alien3, alien_movie]))) = [alien_movie] \<and>
   nb_excellent_match (select_matches (score_loop unicode_excerpt None (py ''Alien'') None None 0
        [alien3, alien_movie])) = 1 \<and>
   score_candidate unicode_excerpt (py ''Alien'') None None alien3 = 25"
proof -
  let ?L = "score_loop unicode_excerpt None (py ''Alien'') None None 0 [alien3, alien_movie]"
  have "nb_excellent_match (select_matches ?L)
          = length (filter (\<lambda>x. sc_score x \<ge> 99) (sort_scored ?L))"
    using excellent_only_exact_title [of unicode_excerpt None "py ''Alien''" None None
        "[alien3, alien_movie]"] by blast
  also have "\<dots> = length (map sc_cand (filter (\<lambda>x. sc_score x \<ge> 99) (sort_scored ?L)))"
    by simp
  also have "\<dots> = 1"
    by (simp only: example_excellent) simp
  finally show ?thesis using example_excellent by simp
qed

text \<open>
  C3: a candidate whose normalized title equals the search title and whose year equals
  the extracted search year scores 100. With the year 0 it scores 99: the title
  \<open>Zero (0000)\<close> gives the search year 0 and the candidate's year is 0, but the
  source tests the truth value of both years where it means "is not None". The parent
  self-match of the same function compares the years as strings and gives 100 to the
  same object.
\<close>

theorem year_zero_two_rules:
  "extract_trailing_year unicode_excerpt (py ''Zero (0000)'') = (py ''Zero'', Some 0) \<and>
   p_year zero_movie = Some 0 \<and>
   normalize_title unicode_excerpt (Some (cand_title_of zero_movie))
     = normalize_title unicode_excerpt (Some (py ''Zero'')) \<and>
   title_score unicode_excerpt (py ''Zero'') (Some 0) zero_movie = 99 \<and>
   parent_self_match unicode_excerpt (py ''Zero'') (Some 0) zero_movie = True \<and>
   best_score (search_plex_for_media_by_title unicode_excerpt (search_only [zero_movie])
      (py ''Zero (0000)'') (Some (py ''movie'')) None) = 99 \<and>
   best_score (search_plex_for_media_by_title unicode_excerpt (search_only [zero_movie])
      (py ''Zero (0000)'') (Some (py ''movie'')) (Some zero_movie)) = 100"
  by code_simp

text \<open>
  C6 (as stated): a candidate whose kind differs from the filter is excluded. A
  candidate without a kind differs from the filter \<open>movie\<close> and is kept: the source
  filters only a candidate that has a kind.
\<close>

theorem untyped_candidate_not_excluded:
  "p_type alien_untyped \<noteq> Some (py ''movie'') \<and>
   candidates (search_plex_for_media_by_title unicode_excerpt (search_only [alien_untyped])
      (py ''Alien'') (Some (py ''movie'')) None) = [alien_untyped]"
  by code_simp

lemma search_candidates_cases:
  assumes "c \<in> set (candidates (search_plex_for_media_by_title U srv title mt parent))"
  shows "(parent = Some c \<and>
            parent_self_match U (fst (extract_trailing_year U (strip U title)))
              (snd (extract_trailing_year U (strip U title))) c)
         \<or> \<not> excluded mt c"
proof -
  have loop: "\<not> excluded mt c"
    if "c \<in> set (candidates (select_matches (score_loop U mt raw year parent 0 cs)))"
    for raw year cs
  proof -
    from that obtain x where "x \<in> set (score_loop U mt raw year parent 0 cs)" "sc_cand x = c"
      by (auto simp: candidates_select_matches set_sort_scored)
    with score_loop_entry [of x] show ?thesis by blast
  qed
  from assms loop show ?thesis
    by (auto simp: search_plex_for_media_by_title_def Let_def no_result_def
        split: if_splits prod.splits option.splits)
qed

text \<open>
  C6 (amended): with a non-empty filter, a candidate that has a kind, different from the
  filter, is not among the candidates of the result, unless it is the parent that the
  self-match returns without scoring. When the search scores the list of candidates, a
  candidate of that list is in the result exactly when it is not so filtered: a
  candidate without a kind is kept and scored.
\<close>

theorem kind_filter_excludes:
  "(truthy_str mt \<and> truthy_str (p_type c) \<and> p_type c \<noteq> mt \<and>
    \<not> (parent = Some c \<and>
         parent_self_match U (fst (extract_trailing_year U (strip U title)))
           (snd (extract_trailing_year U (strip U title))) c)
    \<longrightarrow> c \<notin> set (candidates (search_plex_for_media_by_title U srv title mt parent))) \<and>
   (strip U title \<noteq> [] \<and>
    (\<forall>p. parent = Some p \<longrightarrow>
        \<not> parent_self_match U (fst (extract_trailing_year U (strip U title)))
            (snd (extract_trailing_year U (strip U title))) p) \<and>
    candidates_to_score srv mt parent (fst (extract_trailing_year U (strip U title))) = Some hits \<and>
    c \<in> set hits
    \<longrightarrow> (c \<in> set (candidates (search_plex_for_media_by_title U srv title mt parent))
          \<longleftrightarrow> \<not> (truthy_str mt \<and> truthy_str (p_type c) \<and> p_type c \<noteq> mt)))"
proof (intro conjI impI)
  assume a: "truthy_str mt \<and> truthy_str (p_type c) \<and> p_type c \<noteq> mt \<and>
    \<not> (parent = Some c \<and>
         parent_self_match U (fst (extract_trailing_year U (strip U title)))
           (snd (extract_trailing_year U (strip U title))) c)"
  then have "excluded mt c" by (auto simp: excluded_def)
  with a search_candidates_cases [of c U srv title mt parent]
  show "c \<notin> set (candidates (search_plex_for_media_by_title U srv title mt parent))"
    by blast
next
  assume b: "strip U title \<noteq> [] \<and>
    (\<forall>p. parent = Some p \<longrightarrow>
        \<not> parent_self_match U (fst (extract_trailing_year U (strip U title)))
            (snd (extract_trailing_year U (strip U title))) p) \<and>
    candidates_to_score srv mt parent (fst (extract_trailing_year U (strip U title))) = Some hits \<and>
    c \<in> set hits"
  let ?raw = "fst (extract_trailing_year U (strip U title))"
  let ?year = "snd (extract_trailing_year U (strip U title))"
  from b have r: "search_plex_for_media_by_title U srv title mt parent
           = select_matches (score_loop U mt ?raw ?year parent 0 hits)"
    by (intro search_scoring_path) simp_all
  have e: "excluded mt c \<longleftrightarrow> truthy_str mt \<and> truthy_str (p_type c) \<and> p_type c \<noteq> mt"
    by (auto simp: excluded_def)
  have "c \<in> set (candidates (select_matches (score_loop U mt ?raw ?year parent 0 hits)))
          \<longleftrightarrow> \<not> excluded mt c"
  proof
    assume "c \<in> set (candidates (select_matches (score_loop U mt ?raw ?year parent 0 hits)))"
    then obtain x where "x \<in> set (score_loop U mt ?raw ?year parent 0 hits)" "sc_cand x = c"
      by (auto simp: candidates_select_matches set_sort_scored)
    with score_loop_entry [of x] show "\<not> excluded mt c" by blast
  next
    assume "\<not> excluded mt c"
    with b score_loop_complete [of c hits mt U ?raw ?year parent 0]
    show "c \<in> set (candidates (select_matches (score_loop U mt ?raw ?year parent 0 hits)))"
      by (auto simp: candidates_select_matches set_sort_scored)
  qed
  with r e show "c \<in> set (candidates (search_plex_for_media_by_title U srv title mt parent))
          \<longleftrightarrow> \<not> (truthy_str mt \<and> truthy_str (p_type c) \<and> p_type c \<noteq> mt)"
    by simp
qed

lemma example_filter_path:
  "strip unicode_excerpt (py ''Alien'') \<noteq> []"
  "extract_trailing_year unicode_excerpt (strip unicode_excerpt (py ''Alien'')) = (py ''Alien'', None)"
  "candidates_to_score (search_only [alien_untyped, alien_show, alien_movie]) (Some (py ''movie''))
     None (py ''Alien'') = Some [alien_untyped, alien_show, alien_movie]"
  "truthy_str (Some (py ''movie''))"
  "truthy_str (p_type alien_show)"
  "p_type alien_show \<noteq> Some (py ''movie'')"
  "\<not> truthy_str (p_type alien_untyped)"
  by code_simp+

theorem kind_filter_excludes_witness:
  "alien_show \<notin> set (candidates (search_plex_for_media_by_title unicode_excerpt
      (search_only [alien_untyped, alien_show, alien_movie]) (py ''Alien'')
      (Some (py ''movie'')) None)) \<and>
   alien_untyped \<in> set (candidates (search_plex_for_media_by_title unicode_excerpt
      (search_only [alien_untyped, alien_show, alien_movie]) (py ''Alien'')
      (Some (py ''movie'')) None))"
  using kind_filter_excludes [of "Some (py ''movie'')" alien_show None unicode_excerpt "py ''Alien''"
      "search_only [alien_untyped, alien_show, alien_movie]"
      "[alien_untyped, alien_show, alien_movie]"]
    kind_filter_excludes [of "Some (py ''movie'')" alien_untyped None unicode_excerpt "py ''Alien''"
      "search_only [alien_untyped, alien_show, alien_movie]"
      "[alien_untyped, alien_show, alien_movie]"]
    example_filter_path
  by simp

text \<open>
  C1: in interactive mode, a result with candidates and no confident match makes
  \<open>resolve_plex_item\<close> evaluate \<open>len\<close> of the integer \<open>nb_excellent_match\<close>, which
  raises \<open>TypeError\<close>: the candidate list is not presented. Here the search for
  \<open>Alien\<close> finds the one candidate \<open>Alien 3\<close>, with score 25, and the user would type 1.
\<close>

theorem resolve_interactive_no_confident_raises:
  "candidates (search_plex_for_media_by_title unicode_excerpt (search_only [alien3])
      (py ''Alien'') (Some (py ''movie'')) None) = [alien3] \<and>
   is_confident (search_plex_for_media_by_title unicode_excerpt (search_only [alien3])
      (py ''Alien'') (Some (py ''movie'')) None) = False \<and>
   nb_excellent_match (search_plex_for_media_by_title unicode_excerpt (search_only [alien3])
      (py ''Alien'') (Some (py ''movie'')) None) = 0 \<and>
   resolve_plex_item unicode_excerpt (search_only [alien3]) [py ''1'']
      (py ''Alien'') (Some (py ''movie'')) False None = ([], Inl TypeError)"
  by code_simp

lemma resolve_interactive_no_excellent:
  assumes "candidates (search_plex_for_media_by_title U srv title mt parent) \<noteq> []"
    and "nb_excellent_match (search_plex_for_media_by_title U srv title mt parent) = 0"
  shows "resolve_plex_item U srv inputs title mt False parent = ([], Inl TypeError)"
  using assms by (simp add: resolve_plex_item_def Let_def len_of_int_def)

section \<open>Properties of the planner\<close>

lemma stripped_add_tag: "stripped U acc \<Longrightarrow> stripped U (add_tag U R acc name)"
  by (auto simp: stripped_def add_tag_def Let_def strip_idem)

lemma stripped_foldl:
  assumes "\<And>acc x. stripped U acc \<Longrightarrow> stripped U (f acc x)"
  shows "stripped U acc \<Longrightarrow> stripped U (foldl f acc xs)"
  by (induction xs arbitrary: acc) (simp_all add: assms)

lemma stripped_add_parts: "stripped U acc \<Longrightarrow> stripped U (add_parts U R acc s)"
  unfolding add_parts_def by (rule stripped_foldl) (rule stripped_add_tag)

lemma stripped_add_item: "stripped U acc \<Longrightarrow> stripped U (add_item U R acc item)"
  by (cases item) (simp_all add: add_item_def stripped_add_parts stripped_add_tag)

lemma stripped_gather: "stripped U (gather_tag_names U R v)"
proof -
  have e: "stripped U []" by (simp add: stripped_def)
  show ?thesis
  proof (cases v)
    case VNone
    then show ?thesis using e by (simp add: gather_tag_names_def)
  next
    case (VStr s)
    then show ?thesis using stripped_add_parts [OF e] by (simp add: gather_tag_names_def)
  next
    case (VDict d)
    then show ?thesis using stripped_add_tag [OF e] by (simp add: gather_tag_names_def)
  next
    case (VList items)
    have "stripped U (foldl (add_item U R) [] items)"
      using e by (rule stripped_foldl [rotated]) (rule stripped_add_item)
    with VList show ?thesis by (simp add: gather_tag_names_def)
  qed
qed

lemma unique_tags_first_seen:
  assumes "stripped U xs" "t \<in> set (unique_tags U seen xs)"
  shows "u_lower U t \<notin> seen \<and> find (\<lambda>x. u_lower U x = u_lower U t) xs = Some t"
  using assms
proof (induction xs arbitrary: seen)
  case Nil
  then show ?case by simp
next
  case (Cons x xs)
  from Cons.prems(1) have x: "strip U x = x" "x \<noteq> []" and xs: "stripped U xs"
    by (simp_all add: stripped_def)
  show ?case
  proof (cases "u_lower U x \<in> seen")
    case True
    with Cons.prems(2) x have "t \<in> set (unique_tags U seen xs)" by (simp add: Let_def)
    from Cons.IH [OF xs this] True show ?thesis by auto
  next
    case False
    with Cons.prems(2) x
    have "t = x \<or> t \<in> set (unique_tags U (insert (u_lower U x) seen) xs)"
      by (simp add: Let_def)
    then show ?thesis
    proof
      assume "t = x"
      with False show ?thesis by simp
    next
      assume "t \<in> set (unique_tags U (insert (u_lower U x) seen) xs)"
      from Cons.IH [OF xs this] show ?thesis by auto
    qed
  qed
qed

lemma unique_tags_subseq: "stripped U xs \<Longrightarrow> subseq (unique_tags U seen xs) xs"
proof (induction xs arbitrary: seen)
  case Nil
  then show ?case by simp
next
  case (Cons x xs)
  then have x: "strip U x = x" "x \<noteq> []" and xs: "stripped U xs"
    by (simp_all add: stripped_def)
  show ?case using x Cons.IH [OF xs] by (auto simp: Let_def intro: list_emb_Cons)
qed

lemma unique_tags_distinct:
  "stripped U xs \<Longrightarrow> distinct (map (u_lower U) (unique_tags U seen xs))"
proof (induction xs arbitrary: seen)
  case Nil
  then show ?case by simp
next
  case (Cons x xs)
  then have x: "strip U x = x" "x \<noteq> []" and xs: "stripped U xs"
    by (simp_all add: stripped_def)
  have "u_lower U x \<notin> u_lower U ` set (unique_tags U (insert (u_lower U x) seen) xs)"
    using unique_tags_first_seen [OF xs] by fastforce
  then show ?case using x Cons.IH [OF xs] by (simp add: Let_def)
qed

lemma plan_entry_tag_op:
  assumes "plan_entry U R cfg item k v = Inr ops" "TagOp f new ex \<in> set ops"
  shows "map_of SUPPORTED_FIELD_MAP k = Some (f, True) \<and>
         new = filter (\<lambda>tag. \<not> is_combined tag) (unique_tags U {} (gather_tag_names U R v)) \<and>
         new \<noteq> []"
  using assms
  by (auto simp: plan_entry_def Let_def split: option.splits if_splits sum.splits prod.splits)

lemma plan_ops_entry:
  assumes "plan_ops U R cfg item nfo = Inr ops" "op \<in> set ops"
  shows "\<exists>k v es. (k, v) \<in> set nfo \<and> plan_entry U R cfg item k v = Inr es \<and> op \<in> set es"
  using assms
proof (induction nfo arbitrary: ops)
  case Nil
  then show ?case by simp
next
  case (Cons kv nfo)
  obtain k v where kv: "kv = (k, v)" by (cases kv)
  from Cons.prems(1) kv obtain es later where
    es: "plan_entry U R cfg item k v = Inr es" and later: "plan_ops U R cfg item nfo = Inr later"
    and ops: "ops = es @ later"
    by (auto split: sum.splits)
  from Cons.prems(2) ops have "op \<in> set es \<or> op \<in> set later" by simp
  then show ?case
  proof
    assume "op \<in> set es"
    with es kv show ?thesis by auto
  next
    assume "op \<in> set later"
    from Cons.IH [OF later this] show ?thesis by auto
  qed
qed

lemma validate_ops_subset: "set (fst (validate_ops item ops)) \<subseteq> set ops"
  by (induction item ops rule: validate_ops.induct) (auto split: prod.splits if_splits)

lemma is_combined_iff: "is_combined t \<longleftrightarrow> (\<exists>c\<in>set t. c \<in> separators)"
  by (simp add: is_combined_def list_ex_iff)

text \<open>
  C4: in every tag operation that the planner emits (planned, and so validated), the new
  tags have pairwise different lowercase forms and no tag contains a separator; they
  come from one tag field of the sidecar record, in the order of its raw tag names, and
  each is the first raw tag name of its lowercase form.
\<close>

theorem tag_op_new_tags:
  assumes "plan_ops U R cfg item nfo = Inr ops"
    and "TagOp f new ex \<in> set ops \<union> set (fst (validate_ops item ops))"
  shows "distinct (map (u_lower U) new) \<and>
         (\<forall>t\<in>set new. \<forall>c\<in>set t. c \<notin> separators) \<and>
         (\<exists>k v. (k, v) \<in> set nfo \<and> map_of SUPPORTED_FIELD_MAP k = Some (f, True) \<and>
            subseq new (gather_tag_names U R v) \<and>
            (\<forall>t\<in>set new.
               find (\<lambda>x. u_lower U x = u_lower U t) (gather_tag_names U R v) = Some t))"
proof -
  from assms(2) validate_ops_subset have "TagOp f new ex \<in> set ops" by blast
  from plan_ops_entry [OF assms(1) this] obtain k v es where
    kv: "(k, v) \<in> set nfo" and es: "plan_entry U R cfg item k v = Inr es"
    and op: "TagOp f new ex \<in> set es"
    by blast
  let ?names = "gather_tag_names U R v"
  let ?unique = "unique_tags U {} ?names"
  from plan_entry_tag_op [OF es op]
  have f: "map_of SUPPORTED_FIELD_MAP k = Some (f, True)"
    and new: "new = filter (\<lambda>tag. \<not> is_combined tag) ?unique"
    by simp_all
  have s: "stripped U ?names" by (rule stripped_gather)
  have d: "distinct (map (u_lower U) new)"
    unfolding new using unique_tags_distinct [OF s, of "{}"] by (simp add: distinct_map_filter)
  have c: "\<forall>t\<in>set new. \<forall>c\<in>set t. c \<notin> separators"
    unfolding new by (auto simp: is_combined_iff)
  have "subseq new ?unique"
    unfolding new by simp
  then have q: "subseq new ?names"
    using unique_tags_subseq [OF s, of "{}"] by (rule subseq_order.trans)
  have h: "\<forall>t\<in>set new. find (\<lambda>x. u_lower U x = u_lower U t) ?names = Some t"
    unfolding new using unique_tags_first_seen [OF s, of _ "{}"] by simp
  from d c kv f q h show ?thesis by blast
qed

lemma validate_ops_kept:
  "op \<in> set (fst (validate_ops item ops)) \<longleftrightarrow>
     op \<in> set ops \<and>
     (case op of
        FieldOp rest v old \<Rightarrow> getattr item rest \<noteq> None
      | TagOp rest new ex \<Rightarrow> getattr item rest \<noteq> None \<or> getattr item (rstrip_s rest) \<noteq> None)"
  by (induction item ops rule: validate_ops.induct)
     (auto split: prod.splits if_splits update_op.splits)

lemma validate_ops_missing_tag:
  "MissingTagCollection r \<in> set (snd (validate_ops item ops)) \<longleftrightarrow>
     (\<exists>new ex. TagOp r new ex \<in> set ops) \<and>
     getattr item r = None \<and> getattr item (rstrip_s r) = None"
  by (induction item ops rule: validate_ops.induct)
     (auto split: prod.splits if_splits)

text \<open>
  C10: a planned tag operation is kept by the validation pass exactly when the entity
  has the attribute of the plural name or the attribute of the name with its trailing
  \<open>s\<close> characters stripped; it is recorded as a missing tag collection exactly when
  both are absent.
\<close>

theorem validate_tag_op_singular:
  assumes "TagOp rest new ex \<in> set ops"
  shows "(TagOp rest new ex \<in> set (fst (validate_ops item ops))
            \<longleftrightarrow> getattr item rest \<noteq> None \<or> getattr item (rstrip_s rest) \<noteq> None) \<and>
         (MissingTagCollection rest \<in> set (snd (validate_ops item ops))
            \<longleftrightarrow> getattr item rest = None \<and> getattr item (rstrip_s rest) = None)"
  using assms by (auto simp: validate_ops_kept validate_ops_missing_tag)

text \<open>
  C8: when the validated plan is empty, the run records that no changes are required,
  and the artwork matcher is called if and only if \<open>ALWAYS_UPDATE_ART\<close> is set; without
  it no call is made at all.
\<close>

theorem empty_plan_outcome:
  assumes "plan_ops U R cfg item nfo = Inr planned" "fst (validate_ops item planned) = []"
  shows "NoChangesRequired \<in> set (stats (update_plex_item_fields U R cfg raises item nfo)) \<and>
         (UpdateArtwork \<in> set (calls (update_plex_item_fields U R cfg raises item nfo))
            \<longleftrightarrow> ALWAYS_UPDATE_ART cfg) \<and>
         (\<not> ALWAYS_UPDATE_ART cfg \<longrightarrow>
            calls (update_plex_item_fields U R cfg raises item nfo) = [])"
  using assms
  by (auto simp: update_plex_item_fields_def final_artwork_def Let_def split: prod.splits)

lemma example_plan:
  "plan_ops unicode_excerpt example_repr (example_settings False)
     (example_item (py ''genres'') (ATags []))
     [(py ''genre'', VList [VStr (py ''Action''), VStr (py ''action''), VStr (py ''Drama'')])]
   = Inr [TagOp (py ''genres'') [py ''Action'', py ''Drama''] []]"
  "plan_ops unicode_excerpt example_repr (example_settings False)
     (example_item (py ''genres'') (ATags []))
     [(py ''genre'', VDict [(py ''name'', VStr (py ''Action/Adventure''))])]
   = Inr []"
  by code_simp+

theorem tag_op_new_tags_witness:
  "plan_ops unicode_excerpt example_repr (example_settings False)
     (example_item (py ''genres'') (ATags []))
     [(py ''genre'', VList [VStr (py ''Action''), VStr (py ''action''), VStr (py ''Drama'')])]
   = Inr [TagOp (py ''genres'') [py ''Action'', py ''Drama''] []] \<and>
   distinct (map (u_lower unicode_excerpt) [py ''Action'', py ''Drama'']) \<and>
   plan_ops unicode_excerpt example_repr (example_settings False)
     (example_item (py ''genres'') (ATags []))
     [(py ''genre'', VDict [(py ''name'', VStr (py ''Action/Adventure''))])]
   = Inr []"
proof -
  have "distinct (map (u_lower unicode_excerpt) [py ''Action'', py ''Drama''])"
    using tag_op_new_tags [OF example_plan(1), of "py ''genres''" "[py ''Action'', py ''Drama'']" "[]"]
    by simp
  with example_plan show ?thesis by simp
qed

lemma example_attrs:
  "getattr (example_item (py ''genre'') (ATags [])) (py ''genres'') = None"
  "getattr (example_item (py ''genre'') (ATags [])) (rstrip_s (py ''genres'')) = Some (ATags [])"
  "getattr (example_item (py ''studio'') ANone) (py ''genres'') = None"
  "getattr (example_item (py ''studio'') ANone) (rstrip_s (py ''genres'')) = None"
  by code_simp+

theorem validate_tag_op_singular_witness:
  "TagOp (py ''genres'') [py ''Action''] []
     \<in> set (fst (validate_ops (example_item (py ''genre'') (ATags []))
                [TagOp (py ''genres'') [py ''Action''] []])) \<and>
   MissingTagCollection (py ''genres'')
     \<in> set (snd (validate_ops (example_item (py ''studio'') ANone)
                [TagOp (py ''genres'') [py ''Action''] []])) \<and>
   TagOp (py ''genres'') [py ''Action''] []
     \<notin> set (fst (validate_ops (example_item (py ''studio'') ANone)
                [TagOp (py ''genres'') [py ''Action''] []]))"
proof -
  have m: "TagOp (py ''genres'') [py ''Action''] [] \<in> set [TagOp (py ''genres'') [py ''Action''] []]"
    by simp
  from validate_tag_op_singular [OF m, of "example_item (py ''genre'') (ATags [])"]
    validate_tag_op_singular [OF m, of "example_item (py ''studio'') ANone"]
    example_attrs
  show ?thesis by simp
qed

lemma example_empty_plan:
  "plan_ops unicode_excerpt example_repr (example_settings always)
     (example_item (py ''genres'') (ATags [])) [(py ''title'', VStr (py ''Alien''))] = Inr []"
  by (cases always; code_simp)

theorem empty_plan_outcome_witness:
  "NoChangesRequired \<in> set (stats (update_plex_item_fields unicode_excerpt example_repr
      (example_settings False) (\<lambda>a. False) (example_item (py ''genres'') (ATags []))
      [(py ''title'', VStr (py ''Alien''))])) \<and>
   calls (update_plex_item_fields unicode_excerpt example_repr
      (example_settings False) (\<lambda>a. False) (example_item (py ''genres'') (ATags []))
      [(py ''title'', VStr (py ''Alien''))]) = [] \<and>
   UpdateArtwork \<in> set (calls (update_plex_item_fields unicode_excerpt example_repr
      (example_settings True) (\<lambda>a. False) (example_item (py ''genres'') (ATags []))
      [(py ''title'', VStr (py ''Alien''))]))"
proof -
  have v: "fst (validate_ops (example_item (py ''genres'') (ATags [])) []) = []"
    by simp
  have f: "\<not> ALWAYS_UPDATE_ART (example_settings False)"
    and t: "ALWAYS_UPDATE_ART (example_settings True)"
    by (simp_all add: example_settings_def)
  from empty_plan_outcome [OF example_empty_plan v, of False "\<lambda>a. False"]
    empty_plan_outcome [OF example_empty_plan v, of True "\<lambda>a. False"] f t
  show ?thesis by blast
qed

text \<open>
  C2: a second run of the planner after the first plan was applied should plan nothing.
  The sidecar record has the genre \<open>Action\<close> and the entity no genre: the plan is one
  tag operation. With the entity's genres set to the planned new tags, the planner emits
  the tag operation again, now with equal new and existing tags, and the run edits and
  reloads the entity instead of recording that no changes are required.
\<close>

theorem tag_plan_repeats:
  "plan_ops unicode_excerpt example_repr (example_settings False)
     (example_item (py ''genres'') (ATags []))
     [(py ''title'', VStr (py ''Alien'')), (py ''genre'', VStr (py ''Action''))]
   = Inr [TagOp (py ''genres'') [py ''Action''] []] \<and>
   plan_ops unicode_excerpt example_repr (example_settings False)
     (apply_tag_op (example_item (py ''genres'') (ATags [])) (py ''genres'') [py ''Action''])
     [(py ''title'', VStr (py ''Alien'')), (py ''genre'', VStr (py ''Action''))]
   = Inr [TagOp (py ''genres'') [py ''Action''] [py ''Action'']] \<and>
   update_plex_item_fields unicode_excerpt example_repr (example_settings False) (\<lambda>a. False)
     (apply_tag_op (example_item (py ''genres'') (ATags [])) (py ''genres'') [py ''Action''])
     [(py ''title'', VStr (py ''Alien'')), (py ''genre'', VStr (py ''Action''))]
   = \<lparr> stats = [Updated], calls = [BatchEdits, SaveEdits, Reload, UpdateArtwork],
       raised = False \<rparr>"
  by code_simp

end
